theory Spec2Isabelle
  imports Main "HOL-Library.Sublist"
begin

section \<open>Strings, numbers and paths\<close>

text \<open>
  The test files build every log line from JavaScript strings and hand it to
  \<^verbatim>\<open>fs.appendFileSync\<close>, which writes it as UTF-8. A string is held here as the
  list of its UTF-8 bytes, the form in which it reaches the log files. For
  well-formed text the tests \<^verbatim>\<open>includes\<close>, \<^verbatim>\<open>startsWith\<close> and \<^verbatim>\<open>endsWith\<close> give the
  same answer on the UTF-8 bytes as on the UTF-16 code units of the runtime.
\<close>

definition str_includes :: "string \<Rightarrow> string \<Rightarrow> bool" where
  "str_includes s searchString = sublist searchString s"

definition startsWith :: "string \<Rightarrow> string \<Rightarrow> bool" where
  "startsWith s searchString = prefix searchString s"

definition endsWith :: "string \<Rightarrow> string \<Rightarrow> bool" where
  "endsWith s searchString = suffix searchString s"

text \<open>The glyphs of the log messages, as their UTF-8 bytes.\<close>

definition CHECK_MARK :: string where
  \<comment> \<open>U+2705, the success glyph\<close>
  "CHECK_MARK = [CHR 0xE2, CHR 0x9C, CHR 0x85]"

definition CROSS_MARK :: string where
  \<comment> \<open>U+274C, the failure glyph\<close>
  "CROSS_MARK = [CHR 0xE2, CHR 0x9D, CHR 0x8C]"

definition STOPWATCH :: string where
  \<comment> \<open>U+23F1 U+FE0F\<close>
  "STOPWATCH = [CHR 0xE2, CHR 0x8F, CHR 0xB1, CHR 0xEF, CHR 0xB8, CHR 0x8F]"

definition WARNING_SIGN :: string where
  \<comment> \<open>U+26A0 U+FE0F\<close>
  "WARNING_SIGN = [CHR 0xE2, CHR 0x9A, CHR 0xA0, CHR 0xEF, CHR 0xB8, CHR 0x8F]"

definition FILE_FOLDER :: string where
  \<comment> \<open>U+1F4C1\<close>
  "FILE_FOLDER = [CHR 0xF0, CHR 0x9F, CHR 0x93, CHR 0x81]"

definition WASTEBASKET :: string where
  \<comment> \<open>U+1F5D1 U+FE0F\<close>
  "WASTEBASKET = [CHR 0xF0, CHR 0x9F, CHR 0x97, CHR 0x91, CHR 0xEF, CHR 0xB8, CHR 0x8F]"

definition BAR_CHART :: string where
  \<comment> \<open>U+1F4CA\<close>
  "BAR_CHART = [CHR 0xF0, CHR 0x9F, CHR 0x93, CHR 0x8A]"

definition CLOCK_FACE :: string where
  \<comment> \<open>U+1F550\<close>
  "CLOCK_FACE = [CHR 0xF0, CHR 0x9F, CHR 0x95, CHR 0x90]"

definition SNAIL :: string where
  \<comment> \<open>U+1F40C\<close>
  "SNAIL = [CHR 0xF0, CHR 0x9F, CHR 0x90, CHR 0x8C]"

definition SHOPPING_CART :: string where
  \<comment> \<open>U+1F6D2\<close>
  "SHOPPING_CART = [CHR 0xF0, CHR 0x9F, CHR 0x9B, CHR 0x92]"

definition PACKAGE :: string where
  \<comment> \<open>U+1F4E6\<close>
  "PACKAGE = [CHR 0xF0, CHR 0x9F, CHR 0x93, CHR 0xA6]"

definition ARROWS :: string where
  \<comment> \<open>U+1F504\<close>
  "ARROWS = [CHR 0xF0, CHR 0x9F, CHR 0x94, CHR 0x84]"

definition CHEQUERED_FLAG :: string where
  \<comment> \<open>U+1F3C1\<close>
  "CHEQUERED_FLAG = [CHR 0xF0, CHR 0x9F, CHR 0x8F, CHR 0x81]"

definition CLIPBOARD :: string where
  \<comment> \<open>U+1F4CB\<close>
  "CLIPBOARD = [CHR 0xF0, CHR 0x9F, CHR 0x93, CHR 0x8B]"

definition NEWLINE :: string where
  "NEWLINE = [CHR 0x0A]"

text \<open>
  A template literal prints a number with \<^verbatim>\<open>Number.prototype.toString\<close>. Every number
  printed by the helpers is an integer (a count or a difference of millisecond
  clock readings), printed in decimal with a minus sign when negative.
\<close>

function decimal :: "int \<Rightarrow> string" where
  \<comment> \<open>the decimal digits of a number that is not negative\<close>
  "decimal n =
     (if n < 10 then [''0123456789'' ! nat n]
      else decimal (n div 10) @ [''0123456789'' ! nat (n mod 10)])"
  by pat_completeness auto
termination
  by (relation "measure nat") auto

declare decimal.simps [simp del]

definition numberToString :: "int \<Rightarrow> string" where
  "numberToString i = (if i < 0 then ''-'' @ decimal (- i) else decimal i)"

text \<open>
  A path is the list of its components; \<^verbatim>\<open>path.join(dir, name)\<close> adds one component
  (the names joined by the helpers are single components). Where a path is printed
  into a message it is rendered the POSIX way.
\<close>

type_synonym path = "string list"

definition path_join :: "path \<Rightarrow> string \<Rightarrow> path" where
  "path_join dir component = dir @ [component]"

definition path_text :: "path \<Rightarrow> string" where
  "path_text p = concat (map (\<lambda>component. CHR ''/'' # component) p)"


section \<open>The world the helpers run in\<close>

text \<open>
  What is thrown and caught is an \<^verbatim>\<open>Error\<close> object, read through its \<^verbatim>\<open>message\<close> and
  \<^verbatim>\<open>stack\<close> (the structured failure the file-system module and the browser
  automation raise).
\<close>

datatype js_error = Error (err_message: string) (err_stack: string)

record fs_file =
  content :: string
  mtime :: int

datatype fs_call = Readdir path | Stat path | Unlink path | Append path

text \<open>
  The state threaded through the helpers:
  \<^item> \<open>fs\<close>: the files, each under its path, in the order a directory listing returns
    them;
  \<^item> \<open>fs_faults\<close>: the file-system calls the environment refuses (permissions, a
    missing directory, a directory in place of a file, ...) and the error each one
    raises; the helpers never change it;
  \<^item> \<open>clock\<close>, \<open>clock_reads\<close>: the successive readings of the system clock in
    milliseconds and how many have been taken; \<^verbatim>\<open>Date.now()\<close>, \<^verbatim>\<open>new Date()\<close> and the
    time stamp of a write each take the next one;
  \<^item> \<open>testStats\<close>: the counters object of the test file.
\<close>

record 's world =
  fs :: "(path \<times> fs_file) list"
  fs_faults :: "fs_call \<Rightarrow> js_error option"
  clock :: "nat \<Rightarrow> int"
  clock_reads :: nat
  testStats :: 's

text \<open>
  A computation returns a value or throws, and leaves a world either way. An awaited
  operation is run to its settlement, so \<^verbatim>\<open>await\<close> is sequencing.
\<close>

type_synonym ('a, 's) io = "'s world \<Rightarrow> (js_error + 'a) \<times> 's world"

definition io_return :: "'a \<Rightarrow> ('a, 's) io" where
  "io_return x w = (Inr x, w)"

definition io_throw :: "js_error \<Rightarrow> ('a, 's) io" where
  "io_throw e w = (Inl e, w)"

definition io_bind :: "('a, 's) io \<Rightarrow> ('a \<Rightarrow> ('b, 's) io) \<Rightarrow> ('b, 's) io" where
  "io_bind m f w = (case m w of (Inl e, w') \<Rightarrow> (Inl e, w') | (Inr x, w') \<Rightarrow> f x w')"

definition io_try :: "('a, 's) io \<Rightarrow> (js_error \<Rightarrow> ('a, 's) io) \<Rightarrow> ('a, 's) io" where
  "io_try m handler w = (case m w of (Inl e, w') \<Rightarrow> handler e w' | (Inr x, w') \<Rightarrow> (Inr x, w'))"

definition Date_now :: "(int, 's) io" where
  "Date_now w = (Inr (clock w (clock_reads w)), w\<lparr>clock_reads := Suc (clock_reads w)\<rparr>)"

subsection \<open>The file-system calls\<close>

definition ENOENT :: "string \<Rightarrow> path \<Rightarrow> js_error" where
  "ENOENT syscall p =
     (let description = ''ENOENT: no such file or directory, '' @ syscall @ '' ''
                          @ [CHR 0x27] @ path_text p @ [CHR 0x27]
      in Error description (''Error: '' @ description))"

definition dir_entries :: "path \<Rightarrow> (path \<times> fs_file) list \<Rightarrow> string list" where
  \<comment> \<open>the names of the files directly under a directory, in listing order\<close>
  "dir_entries dir entries =
     map (\<lambda>entry. last (fst entry))
       (filter (\<lambda>entry. fst entry = path_join dir (last (fst entry))) entries)"

definition readdirSync :: "path \<Rightarrow> (string list, 's) io" where
  "readdirSync dir w =
     (case fs_faults w (Readdir dir) of
        Some e \<Rightarrow> (Inl e, w)
      | None \<Rightarrow> (Inr (dir_entries dir (fs w)), w))"

definition statSync :: "path \<Rightarrow> (fs_file, 's) io" where
  "statSync p w =
     (case fs_faults w (Stat p) of
        Some e \<Rightarrow> (Inl e, w)
      | None \<Rightarrow> (case map_of (fs w) p of
                   None \<Rightarrow> (Inl (ENOENT ''stat'' p), w)
                 | Some f \<Rightarrow> (Inr f, w)))"

definition unlinkSync :: "path \<Rightarrow> (unit, 's) io" where
  "unlinkSync p w =
     (case fs_faults w (Unlink p) of
        Some e \<Rightarrow> (Inl e, w)
      | None \<Rightarrow> (case map_of (fs w) p of
                   None \<Rightarrow> (Inl (ENOENT ''unlink'' p), w)
                 | Some f \<Rightarrow> (Inr (), w\<lparr>fs := filter (\<lambda>entry. fst entry \<noteq> p) (fs w)\<rparr>)))"

definition write_at :: "path \<Rightarrow> string \<Rightarrow> int \<Rightarrow> (path \<times> fs_file) list \<Rightarrow> (path \<times> fs_file) list" where
  \<comment> \<open>append to the file when it is there, create it otherwise\<close>
  "write_at p s t entries =
     (case map_of entries p of
        None \<Rightarrow> entries @ [(p, \<lparr>content = s, mtime = t\<rparr>)]
      | Some f \<Rightarrow> map (\<lambda>entry. if fst entry = p
                                then (p, \<lparr>content = content (snd entry) @ s, mtime = t\<rparr>)
                                else entry) entries)"

definition appendFileSync :: "path \<Rightarrow> string \<Rightarrow> (unit, 's) io" where
  "appendFileSync p s w =
     (case fs_faults w (Append p) of
        Some e \<Rightarrow> (Inl e, w)
      | None \<Rightarrow> (Inr (), w\<lparr>fs := write_at p s (clock w (clock_reads w)) (fs w),
                            clock_reads := Suc (clock_reads w)\<rparr>))"

definition fs_text :: "'s world \<Rightarrow> path \<Rightarrow> string" where
  \<comment> \<open>what a file holds; nothing when it is not there\<close>
  "fs_text w p = (case map_of (fs w) p of None \<Rightarrow> [] | Some f \<Rightarrow> content f)"


section \<open>The logging set-up of a test file\<close>

text \<open>
  The four test files (cart, checkout, login, sort) open with the same code and differ
  in the two configuration constants. What the module computes once when it is loaded
  is taken as given: the working directory, the clock reading and the random suffix
  that make the run identifier, and the runtime's \<^verbatim>\<open>Date.prototype.toISOString\<close>.
\<close>

record config =
  TEST_FILE_NAME :: string
  TEST_DISPLAY_NAME :: string
  cwd :: path
  loadTime :: int
  randomSuffix :: string
  toISOString :: "int \<Rightarrow> string"

definition baseLogsDir :: "config \<Rightarrow> path" where
  "baseLogsDir cfg = path_join (cwd cfg) ''test-logs''"

definition testFileLogsDir :: "config \<Rightarrow> path" where
  "testFileLogsDir cfg = path_join (baseLogsDir cfg) (TEST_FILE_NAME cfg)"

definition testRunId :: "config \<Rightarrow> string" where
  "testRunId cfg = ''run_'' @ numberToString (loadTime cfg) @ ''_'' @ randomSuffix cfg"

definition logFileName :: "config \<Rightarrow> string" where
  "logFileName cfg = TEST_FILE_NAME cfg @ ''_tests_'' @ testRunId cfg @ ''.log''"

definition logFilePath :: "config \<Rightarrow> path" where
  "logFilePath cfg = path_join (testFileLogsDir cfg) (logFileName cfg)"

definition summaryLogPath :: "config \<Rightarrow> path" where
  "summaryLogPath cfg = path_join (testFileLogsDir cfg) (TEST_FILE_NAME cfg @ ''_summary.log'')"

definition masterSummaryPath :: "config \<Rightarrow> path" where
  "masterSummaryPath cfg = path_join (baseLogsDir cfg) ''all_tests_summary.log''"

subsection \<open>logToFile\<close>

definition logEntry :: "config \<Rightarrow> int \<Rightarrow> string \<Rightarrow> string \<Rightarrow> string" where
  "logEntry cfg now level message =
     ''['' @ toISOString cfg now @ ''] ['' @ level @ ''] '' @ message @ NEWLINE"

definition summaryEntry :: "config \<Rightarrow> int \<Rightarrow> string \<Rightarrow> string" where
  "summaryEntry cfg now message =
     ''['' @ toISOString cfg now @ ''] ['' @ testRunId cfg @ ''] '' @ message @ NEWLINE"

definition masterEntry :: "config \<Rightarrow> int \<Rightarrow> string \<Rightarrow> string" where
  "masterEntry cfg now message =
     ''['' @ toISOString cfg now @ ''] ['' @ TEST_FILE_NAME cfg @ ''] ['' @ testRunId cfg @ ''] ''
       @ message @ NEWLINE"

definition to_summary :: "string \<Rightarrow> string \<Rightarrow> bool" where
  "to_summary message level =
     (level = ''ERROR'' \<or> level = ''SUMMARY'' \<or> str_includes message CHECK_MARK
        \<or> str_includes message CROSS_MARK)"

definition to_master :: "string \<Rightarrow> string \<Rightarrow> bool" where
  "to_master message level =
     (level = ''ERROR'' \<or> level = ''CRITICAL'' \<or> str_includes message ''TEST START''
        \<or> str_includes message ''COMPLETED'')"

definition logToFile :: "config \<Rightarrow> string \<Rightarrow> string \<Rightarrow> (unit, 's) io" where
  "logToFile cfg message level =
     io_bind Date_now (\<lambda>now.
     io_bind (appendFileSync (logFilePath cfg) (logEntry cfg now level message)) (\<lambda>_.
     io_bind (if to_summary message level
              then appendFileSync (summaryLogPath cfg) (summaryEntry cfg now message)
              else io_return ()) (\<lambda>_.
     if to_master message level
     then appendFileSync (masterSummaryPath cfg) (masterEntry cfg now message)
     else io_return ())))"

definition logs_writable :: "config \<Rightarrow> 's world \<Rightarrow> bool" where
  \<comment> \<open>the environment refuses no append to the three log files of the run\<close>
  "logs_writable cfg w =
     (fs_faults w (Append (logFilePath cfg)) = None \<and>
      fs_faults w (Append (summaryLogPath cfg)) = None \<and>
      fs_faults w (Append (masterSummaryPath cfg)) = None)"

definition logs_created :: "config \<Rightarrow> 's world \<Rightarrow> bool" where
  \<comment> \<open>the three log files are there: the module writes to each of them when it is loaded
      (lines 47 to 52 of the cart file), before any helper runs\<close>
  "logs_created cfg w =
     (logFilePath cfg \<in> fst ` set (fs w) \<and>
      summaryLogPath cfg \<in> fst ` set (fs w) \<and>
      masterSummaryPath cfg \<in> fst ` set (fs w))"

subsection \<open>The counters\<close>

text \<open>
  Every test file keeps \<^verbatim>\<open>testStats\<close> with these five fields; the cart file adds four
  counters of its own. The counters are JavaScript numbers that only ever hold small
  integers.
\<close>

record testStats =
  startTime :: int
  passed :: int
  failed :: int
  warnings :: int
  slowOps :: int

record cartStats = testStats +
  cartAddTests :: int
  cartRemoveTests :: int
  multiItemTests :: int
  navigationTests :: int

definition slowOps_increment :: "(unit, 'm testStats_scheme) io" where
  \<comment> \<open>\<^verbatim>\<open>testStats.slowOps++\<close>\<close>
  "slowOps_increment w = (Inr (), w\<lparr>testStats := (testStats w)\<lparr>slowOps := slowOps (testStats w) + 1\<rparr>\<rparr>)"

definition warnings_increment :: "(unit, 'm testStats_scheme) io" where
  \<comment> \<open>\<^verbatim>\<open>testStats.warnings++\<close>\<close>
  "warnings_increment w = (Inr (), w\<lparr>testStats := (testStats w)\<lparr>warnings := warnings (testStats w) + 1\<rparr>\<rparr>)"

definition passed_increment :: "(unit, 'm testStats_scheme) io" where
  \<comment> \<open>\<^verbatim>\<open>testStats.passed++\<close>\<close>
  "passed_increment w = (Inr (), w\<lparr>testStats := (testStats w)\<lparr>passed := passed (testStats w) + 1\<rparr>\<rparr>)"

subsection \<open>timeAction\<close>

definition fullContext :: "string \<Rightarrow> string \<Rightarrow> string" where
  \<comment> \<open>an empty context is falsy\<close>
  "fullContext actionName context = (if context = [] then actionName else context @ '' - '' @ actionName)"

text \<open>
  The helper of the cart, checkout and login files. The \<^verbatim>\<open>try\<close> block holds the awaited
  operation and the logging of its success; the first log line is written before it.
\<close>

definition timeAction ::
  "config \<Rightarrow> string \<Rightarrow> ('a, 'm testStats_scheme) io \<Rightarrow> string \<Rightarrow> ('a, 'm testStats_scheme) io" where
  "timeAction cfg actionName actionFn context =
     io_bind Date_now (\<lambda>startTime.
     io_bind (logToFile cfg (STOPWATCH @ ''  STARTING: '' @ fullContext actionName context) ''ACTION'') (\<lambda>_.
     io_try
       (io_bind actionFn (\<lambda>result.
        io_bind Date_now (\<lambda>now.
        let duration = now - startTime in
        io_bind (logToFile cfg (CHECK_MARK @ '' COMPLETED: '' @ fullContext actionName context
                                  @ '' ('' @ numberToString duration @ ''ms)'') ''SUCCESS'') (\<lambda>_.
        io_bind (if duration > 5000
                 then io_bind (logToFile cfg (WARNING_SIGN @ ''  SLOW OPERATION: ''
                                   @ fullContext actionName context @ '' took ''
                                   @ numberToString duration @ ''ms'') ''WARNING'')
                        (\<lambda>_. slowOps_increment)
                 else io_return ()) (\<lambda>_.
        io_return result)))))
       (\<lambda>error.
        io_bind Date_now (\<lambda>now.
        let duration = now - startTime in
        io_bind (logToFile cfg (CROSS_MARK @ '' FAILED: '' @ fullContext actionName context
                                  @ '' after '' @ numberToString duration @ ''ms'') ''ERROR'') (\<lambda>_.
        io_bind (logToFile cfg (CROSS_MARK @ '' ERROR DETAILS: '' @ err_message error) ''ERROR'') (\<lambda>_.
        io_bind (logToFile cfg (CROSS_MARK @ '' STACK TRACE: '' @ err_stack error) ''ERROR'') (\<lambda>_.
        io_throw error)))))))"

text \<open>
  The helper of the sort file (\<^verbatim>\<open>timeAction\<close> of \<^verbatim>\<open>src/unnamed/part_001\<close>): the same
  text, but the branch for a slow operation only logs.
\<close>

definition sort_timeAction ::
  "config \<Rightarrow> string \<Rightarrow> ('a, 'm testStats_scheme) io \<Rightarrow> string \<Rightarrow> ('a, 'm testStats_scheme) io" where
  "sort_timeAction cfg actionName actionFn context =
     io_bind Date_now (\<lambda>startTime.
     io_bind (logToFile cfg (STOPWATCH @ ''  STARTING: '' @ fullContext actionName context) ''ACTION'') (\<lambda>_.
     io_try
       (io_bind actionFn (\<lambda>result.
        io_bind Date_now (\<lambda>now.
        let duration = now - startTime in
        io_bind (logToFile cfg (CHECK_MARK @ '' COMPLETED: '' @ fullContext actionName context
                                  @ '' ('' @ numberToString duration @ ''ms)'') ''SUCCESS'') (\<lambda>_.
        io_bind (if duration > 5000
                 then logToFile cfg (WARNING_SIGN @ ''  SLOW OPERATION: ''
                                   @ fullContext actionName context @ '' took ''
                                   @ numberToString duration @ ''ms'') ''WARNING''
                 else io_return ()) (\<lambda>_.
        io_return result)))))
       (\<lambda>error.
        io_bind Date_now (\<lambda>now.
        let duration = now - startTime in
        io_bind (logToFile cfg (CROSS_MARK @ '' FAILED: '' @ fullContext actionName context
                                  @ '' after '' @ numberToString duration @ ''ms'') ''ERROR'') (\<lambda>_.
        io_bind (logToFile cfg (CROSS_MARK @ '' ERROR DETAILS: '' @ err_message error) ''ERROR'') (\<lambda>_.
        io_bind (logToFile cfg (CROSS_MARK @ '' STACK TRACE: '' @ err_stack error) ''ERROR'') (\<lambda>_.
        io_throw error)))))))"

subsection \<open>cleanupOldLogs\<close>

text \<open>The objects the rotation builds for the files it considers.\<close>

record old_log =
  name :: string
  time :: int
  path :: path

definition qualifies :: "config \<Rightarrow> string \<Rightarrow> bool" where
  \<comment> \<open>the \<^verbatim>\<open>filter\<close> callback\<close>
  "qualifies cfg file_name =
     (startsWith file_name (TEST_FILE_NAME cfg @ ''_tests_run_'') \<and> endsWith file_name ''.log'')"

fun stat_each :: "path \<Rightarrow> string list \<Rightarrow> (old_log list, 's) io" where
  \<comment> \<open>the \<^verbatim>\<open>map\<close> callback, applied to the names in order; the first failing \<^verbatim>\<open>statSync\<close> ends it\<close>
  "stat_each dir [] = io_return []"
| "stat_each dir (file_name # rest) =
     io_bind (statSync (path_join dir file_name)) (\<lambda>stats.
     io_bind (stat_each dir rest) (\<lambda>others.
     io_return (\<lparr>name = file_name, time = mtime stats, path = path_join dir file_name\<rparr> # others)))"

fun delete_each :: "config \<Rightarrow> old_log list \<Rightarrow> (unit, 's) io" where
  \<comment> \<open>the \<^verbatim>\<open>forEach\<close> callback, applied in order\<close>
  "delete_each cfg [] = io_return ()"
| "delete_each cfg (f # rest) =
     io_bind (unlinkSync (path f)) (\<lambda>_.
     io_bind (logToFile cfg (WASTEBASKET @ ''  Deleted old log: '' @ name f) ''INFO'') (\<lambda>_.
     delete_each cfg rest))"

definition sort_newest_first :: "old_log list \<Rightarrow> old_log list" where
  \<comment> \<open>\<^verbatim>\<open>sort((a, b) => b.time - a.time)\<close>: a stable sort, the later time first\<close>
  "sort_newest_first logs = sort_key (\<lambda>f. - time f) logs"

definition list_old_logs :: "config \<Rightarrow> (old_log list, 's) io" where
  \<comment> \<open>the value of \<^verbatim>\<open>files\<close>\<close>
  "list_old_logs cfg =
     io_bind (readdirSync (testFileLogsDir cfg)) (\<lambda>listing.
     io_bind (stat_each (testFileLogsDir cfg) (filter (qualifies cfg) listing)) (\<lambda>stats.
     io_return (sort_newest_first stats)))"

definition cleanup_attempt :: "config \<Rightarrow> (unit, 's) io" where
  \<comment> \<open>the \<^verbatim>\<open>try\<close> block\<close>
  "cleanup_attempt cfg =
     io_bind (list_old_logs cfg) (\<lambda>files.
     io_bind (logToFile cfg (FILE_FOLDER @ '' Found '' @ numberToString (int (length files))
                               @ '' existing log files for '' @ TEST_FILE_NAME cfg) ''INFO'') (\<lambda>_.
     if length files > 10
     then (let filesToDelete = drop 10 files in
           io_bind (logToFile cfg (WASTEBASKET @ ''  Cleaning up ''
                                     @ numberToString (int (length filesToDelete))
                                     @ '' old log files'') ''INFO'') (\<lambda>_.
           delete_each cfg filesToDelete))
     else io_return ()))"

definition cleanupOldLogs :: "config \<Rightarrow> (unit, 'm testStats_scheme) io" where
  "cleanupOldLogs cfg =
     io_try (cleanup_attempt cfg)
       (\<lambda>error.
        io_bind (logToFile cfg (WARNING_SIGN @ ''  Failed to cleanup old logs: '' @ err_message error)
                   ''WARNING'') (\<lambda>_.
        warnings_increment))"

definition rotation_candidates :: "config \<Rightarrow> 's world \<Rightarrow> string list" where
  \<comment> \<open>the qualifying per-run log files of the feature directory, by name\<close>
  "rotation_candidates cfg w = filter (qualifies cfg) (dir_entries (testFileLogsDir cfg) (fs w))"

definition log_writes_only :: "config \<Rightarrow> 's world \<Rightarrow> 's world \<Rightarrow> bool" where
  \<comment> \<open>from \<open>w\<close> to \<open>w'\<close> nothing is deleted and no file but the three log files is touched;
      a log file that was missing may have been created\<close>
  "log_writes_only cfg w w' =
     (fs_faults w' = fs_faults w \<and>
      (\<forall>p. p \<noteq> logFilePath cfg \<and> p \<noteq> summaryLogPath cfg \<and> p \<noteq> masterSummaryPath cfg
           \<longrightarrow> map_of (fs w') p = map_of (fs w) p) \<and>
      (\<exists>created. map fst (fs w') = map fst (fs w) @ created \<and>
         set created \<subseteq> {logFilePath cfg, summaryLogPath cfg, masterSummaryPath cfg} - fst ` set (fs w)))"

subsection \<open>logTestStatistics and the teardown of the cart file\<close>

text \<open>The teardown hands \<^verbatim>\<open>{ ...testStats, duration }\<close> to \<^verbatim>\<open>logTestStatistics\<close>.\<close>

record cartReport = cartStats +
  duration :: int

definition with_duration :: "cartStats \<Rightarrow> int \<Rightarrow> cartReport" where
  "with_duration stats d =
     \<lparr>startTime = startTime stats, passed = passed stats, failed = failed stats,
      warnings = warnings stats, slowOps = slowOps stats,
      cartAddTests = cartAddTests stats, cartRemoveTests = cartRemoveTests stats,
      multiItemTests = multiItemTests stats, navigationTests = navigationTests stats,
      duration = d\<rparr>"

definition logTestStatistics :: "config \<Rightarrow> cartReport \<Rightarrow> (unit, 's) io" where
  "logTestStatistics cfg stats =
     io_bind (logToFile cfg [] ''SUMMARY'') (\<lambda>_.
     io_bind (logToFile cfg (replicate 60 (CHR ''='')) ''SUMMARY'') (\<lambda>_.
     io_bind (logToFile cfg (BAR_CHART @ '' '' @ TEST_DISPLAY_NAME cfg @ '' - FINAL STATISTICS'') ''SUMMARY'') (\<lambda>_.
     io_bind (logToFile cfg (CLOCK_FACE @ '' Test Run Duration: '' @ numberToString (duration stats) @ ''ms'') ''SUMMARY'') (\<lambda>_.
     io_bind (logToFile cfg (CHECK_MARK @ '' Tests Passed: '' @ numberToString (passed stats)) ''SUMMARY'') (\<lambda>_.
     io_bind (logToFile cfg (CROSS_MARK @ '' Tests Failed: '' @ numberToString (failed stats)) ''SUMMARY'') (\<lambda>_.
     io_bind (logToFile cfg (WARNING_SIGN @ ''  Warnings Generated: '' @ numberToString (warnings stats)) ''SUMMARY'') (\<lambda>_.
     io_bind (logToFile cfg (SNAIL @ '' Slow Operations: '' @ numberToString (slowOps stats)) ''SUMMARY'') (\<lambda>_.
     io_bind (logToFile cfg (SHOPPING_CART @ '' Cart Add Tests: '' @ numberToString (cartAddTests stats)) ''SUMMARY'') (\<lambda>_.
     io_bind (logToFile cfg (WASTEBASKET @ ''  Cart Remove Tests: '' @ numberToString (cartRemoveTests stats)) ''SUMMARY'') (\<lambda>_.
     io_bind (logToFile cfg (PACKAGE @ '' Multi-Item Tests: '' @ numberToString (multiItemTests stats)) ''SUMMARY'') (\<lambda>_.
     io_bind (logToFile cfg (ARROWS @ '' Navigation Tests: '' @ numberToString (navigationTests stats)) ''SUMMARY'') (\<lambda>_.
     logToFile cfg (replicate 60 (CHR ''='')) ''SUMMARY''))))))))))))"

definition read_testStats :: "('s, 's) io" where
  "read_testStats w = (Inr (testStats w), w)"

definition finalSummary :: "config \<Rightarrow> int \<Rightarrow> cartStats \<Rightarrow> int \<Rightarrow> string" where
  \<comment> \<open>the line the teardown appends to the master summary itself\<close>
  "finalSummary cfg now stats d =
     ''['' @ toISOString cfg now @ ''] ['' @ TEST_FILE_NAME cfg @ ''] COMPLETED - ''
       @ ''Passed: '' @ numberToString (passed stats) @ '', Failed: '' @ numberToString (failed stats) @ '', ''
       @ ''Cart Add: '' @ numberToString (cartAddTests stats)
       @ '', Cart Remove: '' @ numberToString (cartRemoveTests stats) @ '', ''
       @ ''Multi-Item: '' @ numberToString (multiItemTests stats)
       @ '', Navigation: '' @ numberToString (navigationTests stats) @ '', ''
       @ ''Duration: '' @ numberToString d @ ''ms'' @ NEWLINE"

definition afterAll :: "config \<Rightarrow> (unit, cartStats) io" where
  "afterAll cfg =
     io_bind Date_now (\<lambda>now.
     io_bind read_testStats (\<lambda>stats.
     let duration = now - startTime stats in
     io_bind (logTestStatistics cfg (with_duration stats duration)) (\<lambda>_.
     io_bind (logToFile cfg (CHEQUERED_FLAG @ '' TEST SUITE COMPLETED'') ''CRITICAL'') (\<lambda>_.
     io_bind (logToFile cfg (FILE_FOLDER @ '' Detailed logs saved to: '' @ path_text (logFilePath cfg)) ''SUMMARY'') (\<lambda>_.
     io_bind (logToFile cfg (CLIPBOARD @ '' Test file summary: '' @ path_text (summaryLogPath cfg)) ''SUMMARY'') (\<lambda>_.
     io_bind (logToFile cfg (BAR_CHART @ '' Master summary: '' @ path_text (masterSummaryPath cfg)) ''SUMMARY'') (\<lambda>_.
     io_bind Date_now (\<lambda>written.
     io_bind read_testStats (\<lambda>final.
     appendFileSync (masterSummaryPath cfg) (finalSummary cfg written final duration))))))))))"


section \<open>InventoryPage.getCartCount\<close>












section \<open>A run, and sample data\<close>


text \<open>
  \<^verbatim>\<open>Date.prototype.toISOString\<close> for the sample runs: the proleptic Gregorian date of a
  count of milliseconds since 1970, with the expanded year outside 0000 to 9999.
\<close>

definition pad :: "nat \<Rightarrow> int \<Rightarrow> string" where
  "pad width n = replicate (width - length (decimal n)) (CHR ''0'') @ decimal n"

definition toISOString_utc :: "int \<Rightarrow> string" where
  "toISOString_utc t =
     (let ms = t mod 86400000;
          z = t div 86400000 + 719468;
          era = z div 146097;
          doe = z mod 146097;
          yoe = (doe - doe div 1460 + doe div 36524 - doe div 146096) div 365;
          doy = doe - (365 * yoe + yoe div 4 - yoe div 100);
          mp = (5 * doy + 2) div 153;
          d = doy - (153 * mp + 2) div 5 + 1;
          m = (if mp < 10 then mp + 3 else mp - 9);
          y = yoe + era * 400 + (if m \<le> 2 then 1 else 0)
      in (if 0 \<le> y \<and> y \<le> 9999 then pad 4 y
          else if y < 0 then ''-'' @ pad 6 (- y) else ''+'' @ pad 6 y)
         @ ''-'' @ pad 2 m @ ''-'' @ pad 2 d
         @ ''T'' @ pad 2 (ms div 3600000) @ '':'' @ pad 2 (ms div 60000 mod 60)
         @ '':'' @ pad 2 (ms div 1000 mod 60) @ ''.'' @ pad 3 (ms mod 1000) @ ''Z'')"

definition cart_config :: config where
  "cart_config =
     \<lparr>TEST_FILE_NAME = ''cart_feature'', TEST_DISPLAY_NAME = ''Cart Feature Tests'',
      cwd = [''home'', ''ci'', ''saucedemo''], loadTime = 1700000000000,
      randomSuffix = ''k3x9q2m1z'', toISOString = toISOString_utc\<rparr>"

definition fresh_stats :: cartStats where
  "fresh_stats =
     \<lparr>startTime = 1700000000002, passed = 0, failed = 0, warnings = 0, slowOps = 0,
      cartAddTests = 0, cartRemoveTests = 0, multiItemTests = 0, navigationTests = 0\<rparr>"

definition quiet_world :: "cartStats world" where
  \<comment> \<open>just after the module is loaded: the three log files are there, nothing is refused\<close>
  "quiet_world =
     \<lparr>fs = [(logFilePath cart_config, \<lparr>content = ''CART FEATURE TESTS'' @ NEWLINE, mtime = 1700000000001\<rparr>),
            (summaryLogPath cart_config, \<lparr>content = [], mtime = 1700000000001\<rparr>),
            (masterSummaryPath cart_config, \<lparr>content = [], mtime = 1700000000001\<rparr>)],
      fs_faults = (\<lambda>call. None),
      clock = (\<lambda>n. 1700000000100 + 250 * int n),
      clock_reads = 0,
      testStats = fresh_stats\<rparr>"


text \<open>
  The scenario of the teardown: timed operations, each followed by
  \<^verbatim>\<open>testStats.passed++\<close> as in the tests of the cart file. The operations meant are those
  of the browser: they succeed, and touch neither the counters nor what the file system
  refuses.
\<close>

fun timed_passes ::
  "config \<Rightarrow> (string \<times> ('a, 'm testStats_scheme) io \<times> string) list \<Rightarrow> (unit, 'm testStats_scheme) io" where
  "timed_passes cfg [] = io_return ()"
| "timed_passes cfg (step # steps) =
     io_bind (timeAction cfg (fst step) (fst (snd step)) (snd (snd step))) (\<lambda>_.
     io_bind passed_increment (\<lambda>_.
     timed_passes cfg steps))"

definition leaves_counters :: "('a, 's) io \<Rightarrow> bool" where
  "leaves_counters actionFn =
     (\<forall>w. \<exists>r w'. actionFn w = (Inr r, w') \<and> testStats w' = testStats w \<and> fs_faults w' = fs_faults w)"

text \<open>
  The lines \<^verbatim>\<open>logTestStatistics\<close> and the teardown log, as data; and, for a list of calls
  of \<^verbatim>\<open>logToFile\<close> started at clock reading number \<open>r\<close>, the numbers of the readings that
  stamp the calls and the number of readings taken when they are done.
\<close>

definition statistics_lines :: "config \<Rightarrow> cartReport \<Rightarrow> (string \<times> string) list" where
  "statistics_lines cfg stats =
     [([], ''SUMMARY''),
      (replicate 60 (CHR ''=''), ''SUMMARY''),
      (BAR_CHART @ '' '' @ TEST_DISPLAY_NAME cfg @ '' - FINAL STATISTICS'', ''SUMMARY''),
      (CLOCK_FACE @ '' Test Run Duration: '' @ numberToString (duration stats) @ ''ms'', ''SUMMARY''),
      (CHECK_MARK @ '' Tests Passed: '' @ numberToString (passed stats), ''SUMMARY''),
      (CROSS_MARK @ '' Tests Failed: '' @ numberToString (failed stats), ''SUMMARY''),
      (WARNING_SIGN @ ''  Warnings Generated: '' @ numberToString (warnings stats), ''SUMMARY''),
      (SNAIL @ '' Slow Operations: '' @ numberToString (slowOps stats), ''SUMMARY''),
      (SHOPPING_CART @ '' Cart Add Tests: '' @ numberToString (cartAddTests stats), ''SUMMARY''),
      (WASTEBASKET @ ''  Cart Remove Tests: '' @ numberToString (cartRemoveTests stats), ''SUMMARY''),
      (PACKAGE @ '' Multi-Item Tests: '' @ numberToString (multiItemTests stats), ''SUMMARY''),
      (ARROWS @ '' Navigation Tests: '' @ numberToString (navigationTests stats), ''SUMMARY''),
      (replicate 60 (CHR ''=''), ''SUMMARY'')]"

definition closing_lines :: "config \<Rightarrow> (string \<times> string) list" where
  "closing_lines cfg =
     [(CHEQUERED_FLAG @ '' TEST SUITE COMPLETED'', ''CRITICAL''),
      (FILE_FOLDER @ '' Detailed logs saved to: '' @ path_text (logFilePath cfg), ''SUMMARY''),
      (CLIPBOARD @ '' Test file summary: '' @ path_text (summaryLogPath cfg), ''SUMMARY''),
      (BAR_CHART @ '' Master summary: '' @ path_text (masterSummaryPath cfg), ''SUMMARY'')]"

fun log_stamps :: "nat \<Rightarrow> (string \<times> string) list \<Rightarrow> nat list" where
  "log_stamps r [] = []"
| "log_stamps r (call # calls) =
     r # log_stamps (r + 2 + (if to_summary (fst call) (snd call) then 1 else 0)
                       + (if to_master (fst call) (snd call) then 1 else 0)) calls"

fun log_reads :: "nat \<Rightarrow> (string \<times> string) list \<Rightarrow> nat" where
  "log_reads r [] = r"
| "log_reads r (call # calls) =
     log_reads (r + 2 + (if to_summary (fst call) (snd call) then 1 else 0)
                  + (if to_master (fst call) (snd call) then 1 else 0)) calls"

definition quick_click :: "(unit, 's) io" where
  \<comment> \<open>an operation that succeeds at once\<close>
  "quick_click w = (Inr (), w)"

text \<open>Two operations to wrap: a click that times out, and a wait that takes six seconds.\<close>

definition timeout_action :: "(unit, 's) io" where
  "timeout_action w =
     (Inl (Error ''locator.click: Timeout 10000ms exceeded.''
                 ''TimeoutError: locator.click: Timeout 10000ms exceeded.''),
      w\<lparr>clock := (\<lambda>n. clock w n + 10000)\<rparr>)"

definition six_seconds :: "(unit, 's) io" where
  "six_seconds w = (Inr (), w\<lparr>clock := (\<lambda>n. clock w n + 6000)\<rparr>)"

definition sort_config :: config where
  "sort_config =
     \<lparr>TEST_FILE_NAME = ''sort_feature'', TEST_DISPLAY_NAME = ''Sort Feature Tests'',
      cwd = [''home'', ''ci'', ''saucedemo''], loadTime = 1700000000000,
      randomSuffix = ''p0o9i8u7y'', toISOString = toISOString_utc\<rparr>"

definition sort_world :: "testStats world" where
  "sort_world =
     \<lparr>fs = [(logFilePath sort_config, \<lparr>content = [], mtime = 1700000000001\<rparr>),
            (summaryLogPath sort_config, \<lparr>content = [], mtime = 1700000000001\<rparr>),
            (masterSummaryPath sort_config, \<lparr>content = [], mtime = 1700000000001\<rparr>)],
      fs_faults = (\<lambda>call. None),
      clock = (\<lambda>n. 1700000000100 + 250 * int n),
      clock_reads = 0,
      testStats = \<lparr>startTime = 1700000000002, passed = 0, failed = 0, warnings = 0, slowOps = 0\<rparr>\<rparr>"









section \<open>Writing to the log files\<close>

lemma map_of_write_at:
  "map_of (write_at p s t entries) q =
     (if q = p
      then Some \<lparr>content = (case map_of entries p of None \<Rightarrow> [] | Some f \<Rightarrow> content f) @ s,
                 mtime = t\<rparr>
      else map_of entries q)"
proof (cases "map_of entries p")
  case None
  then show ?thesis
    by (simp add: write_at_def map_add_def split: option.splits)
next
  case (Some f)
  have "map_of (map (\<lambda>entry. if fst entry = p
                              then (p, \<lparr>content = content (snd entry) @ s, mtime = t\<rparr>)
                              else entry) es) q
        = (if q = p
           then (case map_of es p of None \<Rightarrow> None
                 | Some g \<Rightarrow> Some \<lparr>content = content g @ s, mtime = t\<rparr>)
           else map_of es q)" for es
    by (induction es) auto
  with Some show ?thesis
    by (simp add: write_at_def)
qed

lemma paths_write_at:
  "map fst (write_at p s t entries) =
     (if p \<in> fst ` set entries then map fst entries else map fst entries @ [p])"
proof (cases "map_of entries p")
  case None
  then have "p \<notin> fst ` set entries"
    by (simp add: map_of_eq_None_iff)
  with None show ?thesis
    by (simp add: write_at_def)
next
  case (Some f)
  then have "p \<in> fst ` set entries"
    by (metis map_of_eq_None_iff option.distinct(1))
  moreover have "map fst (map (\<lambda>entry. if fst entry = p
                                then (p, \<lparr>content = content (snd entry) @ s, mtime = t\<rparr>)
                                else entry) es) = map fst es"
    for es :: "(path \<times> fs_file) list"
    by (induction es) auto
  ultimately show ?thesis
    using Some by (simp add: write_at_def)
qed

lemma log_paths_distinct:
  "logFilePath cfg \<noteq> summaryLogPath cfg" "logFilePath cfg \<noteq> masterSummaryPath cfg"
  "summaryLogPath cfg \<noteq> masterSummaryPath cfg"
  "summaryLogPath cfg \<noteq> logFilePath cfg" "masterSummaryPath cfg \<noteq> logFilePath cfg"
  "masterSummaryPath cfg \<noteq> summaryLogPath cfg"
  by (auto simp: logFilePath_def summaryLogPath_def masterSummaryPath_def path_join_def
      logFileName_def testFileLogsDir_def baseLogsDir_def)

lemma logToFile_ok:
  assumes "logs_writable cfg w"
  shows "logToFile cfg message level w =
    (Inr (),
     w\<lparr>fs := (if to_master message level
               then write_at (masterSummaryPath cfg) (masterEntry cfg (clock w (clock_reads w)) message)
                      (clock w (clock_reads w + 2 + (if to_summary message level then 1 else 0)))
               else id)
              ((if to_summary message level
                then write_at (summaryLogPath cfg) (summaryEntry cfg (clock w (clock_reads w)) message)
                       (clock w (clock_reads w + 2))
                else id)
               (write_at (logFilePath cfg) (logEntry cfg (clock w (clock_reads w)) level message)
                  (clock w (clock_reads w + 1)) (fs w))),
       clock_reads := clock_reads w + 2 + (if to_summary message level then 1 else 0)
                        + (if to_master message level then 1 else 0)\<rparr>)"
  using assms
  by (simp add: logToFile_def io_bind_def Date_now_def appendFileSync_def io_return_def
      logs_writable_def)

lemma logToFile_text:
  assumes "logs_writable cfg w"
  shows "fs_text (snd (logToFile cfg message level w)) p =
     fs_text w p @
       (if p = logFilePath cfg then logEntry cfg (clock w (clock_reads w)) level message
        else if p = summaryLogPath cfg \<and> to_summary message level
        then summaryEntry cfg (clock w (clock_reads w)) message
        else if p = masterSummaryPath cfg \<and> to_master message level
        then masterEntry cfg (clock w (clock_reads w)) message
        else [])"
  using log_paths_distinct[of cfg]
  by (simp add: logToFile_ok[OF assms] fs_text_def map_of_write_at split: option.splits)

lemma logToFile_frame:
  assumes "logs_writable cfg w"
  shows "fst (logToFile cfg message level w) = Inr ()"
    and "fs_faults (snd (logToFile cfg message level w)) = fs_faults w"
    and "testStats (snd (logToFile cfg message level w)) = testStats w"
    and "clock (snd (logToFile cfg message level w)) = clock w"
    and "logs_writable cfg (snd (logToFile cfg message level w))"
  using assms by (simp_all add: logToFile_ok[OF assms] logs_writable_def)

lemma logToFile_run:
  assumes "logs_writable cfg w"
  shows "logToFile cfg message level w = (Inr (), snd (logToFile cfg message level w))"
  using logToFile_frame(1)[OF assms, of message level] by (metis prod.collapse)

lemma logToFile_run_text:
  assumes "logs_writable cfg w"
  shows "fs_text (snd (logToFile cfg message level w)) (logFilePath cfg) =
           fs_text w (logFilePath cfg) @ logEntry cfg (clock w (clock_reads w)) level message"
  by (simp add: logToFile_text[OF assms])

lemma logToFile_reads:
  assumes "logs_writable cfg w"
  shows "clock_reads (snd (logToFile cfg message level w)) =
           clock_reads w + 2 + (if to_summary message level then 1 else 0)
             + (if to_master message level then 1 else 0)"
  by (simp add: logToFile_ok[OF assms])

lemma logs_writable_update [simp]:
  "logs_writable cfg (w\<lparr>clock_reads := n\<rparr>) = logs_writable cfg w"
  "logs_writable cfg (w\<lparr>testStats := s\<rparr>) = logs_writable cfg w"
  "logs_writable cfg (w\<lparr>clock := c\<rparr>) = logs_writable cfg w"
  by (simp_all add: logs_writable_def)

lemma Date_now_writable [simp]: "logs_writable cfg (snd (Date_now w)) = logs_writable cfg w"
  by (simp add: Date_now_def)

lemma logs_writable_slowOps [simp]:
  "logs_writable cfg (snd (slowOps_increment w)) = logs_writable cfg w"
  by (simp add: slowOps_increment_def)

lemma fs_text_Date_now: "fs_text (snd (Date_now w)) p = fs_text w p"
  by (simp add: fs_text_def Date_now_def)

lemma io_bind_logToFile:
  assumes "logs_writable cfg w"
  shows "io_bind (logToFile cfg message level) f w = f () (snd (logToFile cfg message level w))"
  by (subst io_bind_def, subst logToFile_run[OF assms]) simp

lemma io_bind_Date_now:
  "io_bind Date_now f w = f (clock w (clock_reads w)) (snd (Date_now w))"
  by (simp add: io_bind_def Date_now_def)

lemma io_bind_Inl: "m w = (Inl e, w') \<Longrightarrow> io_bind m f w = (Inl e, w')"
  by (simp add: io_bind_def)

lemma io_bind_Inr: "m w = (Inr x, w') \<Longrightarrow> io_bind m f w = f x w'"
  by (simp add: io_bind_def)


lemma io_try_Inr: "m w = (Inr x, w') \<Longrightarrow> io_try m handler w = (Inr x, w')"
  by (simp add: io_try_def)

lemma io_try_bind_Inl:
  "m w = (Inl e, w') \<Longrightarrow> io_try (io_bind m f) handler w = handler e w'"
  by (simp add: io_try_def io_bind_def)

lemma io_try_bind_Inr:
  "m w = (Inr x, w') \<Longrightarrow> io_try (io_bind m f) handler w = io_try (f x) handler w'"
  by (simp add: io_try_def io_bind_def)

lemma quiet_world_writable: "logs_writable cart_config quiet_world"
  by (simp add: logs_writable_def quiet_world_def)

lemma sort_world_writable: "logs_writable sort_config sort_world"
  by (simp add: logs_writable_def sort_world_def)

text \<open>
  C2. One call of \<^verbatim>\<open>logToFile\<close> with message \<open>m\<close> and level \<open>l\<close>, the appends not being
  refused: the summary file of the feature grows, by one line, exactly when \<open>l\<close> is
  ERROR or SUMMARY or \<open>m\<close> contains the success or the failure glyph, and is unchanged
  otherwise; the master summary grows, by one line, exactly when \<open>l\<close> is ERROR or
  CRITICAL or \<open>m\<close> contains \<^verbatim>\<open>TEST START\<close> or \<^verbatim>\<open>COMPLETED\<close>, and is unchanged otherwise.
\<close>

theorem logToFile_summary_tiers:
  assumes "logs_writable cfg w"
  shows "fs_text (snd (logToFile cfg message level w)) (summaryLogPath cfg) =
           (if level = ''ERROR'' \<or> level = ''SUMMARY'' \<or> str_includes message CHECK_MARK
                 \<or> str_includes message CROSS_MARK
            then fs_text w (summaryLogPath cfg) @ summaryEntry cfg (clock w (clock_reads w)) message
            else fs_text w (summaryLogPath cfg))
       \<and> fs_text (snd (logToFile cfg message level w)) (masterSummaryPath cfg) =
           (if level = ''ERROR'' \<or> level = ''CRITICAL'' \<or> str_includes message ''TEST START''
                 \<or> str_includes message ''COMPLETED''
            then fs_text w (masterSummaryPath cfg) @ masterEntry cfg (clock w (clock_reads w)) message
            else fs_text w (masterSummaryPath cfg))
       \<and> (fs_text (snd (logToFile cfg message level w)) (summaryLogPath cfg)
              \<noteq> fs_text w (summaryLogPath cfg))
           = (level = ''ERROR'' \<or> level = ''SUMMARY'' \<or> str_includes message CHECK_MARK
                 \<or> str_includes message CROSS_MARK)
       \<and> (fs_text (snd (logToFile cfg message level w)) (masterSummaryPath cfg)
              \<noteq> fs_text w (masterSummaryPath cfg))
           = (level = ''ERROR'' \<or> level = ''CRITICAL'' \<or> str_includes message ''TEST START''
                 \<or> str_includes message ''COMPLETED'')"
  using log_paths_distinct[of cfg]
  by (simp add: logToFile_text[OF assms] to_summary_def to_master_def summaryEntry_def
      masterEntry_def NEWLINE_def)

theorem logToFile_summary_tiers_witness:
  "logs_writable cart_config quiet_world
   \<and> fs_text (snd (logToFile cart_config
          (CHECK_MARK @ '' TEST COMPLETED: Add item to cart test passed successfully'') ''INFO''
          quiet_world)) (summaryLogPath cart_config)
       = ''[2023-11-14T22:13:20.100Z] [run_1700000000000_k3x9q2m1z] '' @ CHECK_MARK
           @ '' TEST COMPLETED: Add item to cart test passed successfully'' @ NEWLINE
   \<and> fs_text (snd (logToFile cart_config
          (CHECK_MARK @ '' TEST COMPLETED: Add item to cart test passed successfully'') ''INFO''
          quiet_world)) (masterSummaryPath cart_config)
       = ''[2023-11-14T22:13:20.100Z] [cart_feature] [run_1700000000000_k3x9q2m1z] '' @ CHECK_MARK
           @ '' TEST COMPLETED: Add item to cart test passed successfully'' @ NEWLINE"
proof -
  let ?m = "CHECK_MARK @ '' TEST COMPLETED: Add item to cart test passed successfully''"
  have h: "logs_writable cart_config quiet_world"
    by (rule quiet_world_writable)
  have c: "str_includes ?m CHECK_MARK" "str_includes ?m ''COMPLETED''"
    by code_simp+
  have t: "toISOString cart_config (clock quiet_world (clock_reads quiet_world))
             = ''2023-11-14T22:13:20.100Z''"
    by code_simp
  have r: "testRunId cart_config = ''run_1700000000000_k3x9q2m1z''"
    by code_simp
  have z: "fs_text quiet_world (summaryLogPath cart_config) = []"
    "fs_text quiet_world (masterSummaryPath cart_config) = []"
    by code_simp+
  have n: "TEST_FILE_NAME cart_config = ''cart_feature''"
    by (simp add: cart_config_def)
  show ?thesis
    using h logToFile_summary_tiers[OF h, of ?m "''INFO''"] c t r z n
    by (simp add: summaryEntry_def masterEntry_def)
qed






section \<open>timeAction\<close>

text \<open>
  C3. The wrapped operation is started after the first clock reading and the STARTING
  line. When it fails with an error \<open>e\<close> (and the appends to the log files are not
  refused), \<^verbatim>\<open>timeAction\<close> throws \<open>e\<close> itself, and the world it leaves is the one the
  failed operation left, after one more clock reading and the three ERROR lines of the
  failure (the elapsed time, the message of \<open>e\<close>, the stack of \<open>e\<close>), written once each:
  the operation is not run again and nothing else is written.
\<close>

theorem timeAction_failure:
  assumes writable: "logs_writable cfg w"
    and failure:
      "actionFn (snd (logToFile cfg (STOPWATCH @ ''  STARTING: '' @ fullContext actionName context)
                        ''ACTION'' (snd (Date_now w)))) = (Inl e, w_failed)"
    and writable': "logs_writable cfg w_failed"
  shows "fst (timeAction cfg actionName actionFn context w) = Inl e
     \<and> snd (timeAction cfg actionName actionFn context w) =
         snd (logToFile cfg (CROSS_MARK @ '' STACK TRACE: '' @ err_stack e) ''ERROR''
           (snd (logToFile cfg (CROSS_MARK @ '' ERROR DETAILS: '' @ err_message e) ''ERROR''
             (snd (logToFile cfg (CROSS_MARK @ '' FAILED: '' @ fullContext actionName context @ '' after ''
                      @ numberToString (clock w_failed (clock_reads w_failed) - clock w (clock_reads w)) @ ''ms'')
                    ''ERROR'' (snd (Date_now w_failed)))))))
     \<and> (\<exists>t1 t2 t3. fs_text (snd (timeAction cfg actionName actionFn context w)) (logFilePath cfg) =
           fs_text w_failed (logFilePath cfg)
             @ logEntry cfg t1 ''ERROR'' (CROSS_MARK @ '' FAILED: '' @ fullContext actionName context @ '' after ''
                      @ numberToString (clock w_failed (clock_reads w_failed) - clock w (clock_reads w)) @ ''ms'')
             @ logEntry cfg t2 ''ERROR'' (CROSS_MARK @ '' ERROR DETAILS: '' @ err_message e)
             @ logEntry cfg t3 ''ERROR'' (CROSS_MARK @ '' STACK TRACE: '' @ err_stack e))"
proof -
  let ?m1 = "CROSS_MARK @ '' FAILED: '' @ fullContext actionName context @ '' after ''
                      @ numberToString (clock w_failed (clock_reads w_failed) - clock w (clock_reads w)) @ ''ms''"
  let ?w3 = "snd (Date_now w_failed)"
  let ?w4 = "snd (logToFile cfg ?m1 ''ERROR'' ?w3)"
  let ?w5 = "snd (logToFile cfg (CROSS_MARK @ '' ERROR DETAILS: '' @ err_message e) ''ERROR'' ?w4)"
  let ?w6 = "snd (logToFile cfg (CROSS_MARK @ '' STACK TRACE: '' @ err_stack e) ''ERROR'' ?w5)"
  have w0: "logs_writable cfg (snd (Date_now w))" using writable by simp
  have w3: "logs_writable cfg ?w3" using writable' by simp
  have w4: "logs_writable cfg ?w4" by (rule logToFile_frame(5)[OF w3])
  have w5: "logs_writable cfg ?w5" by (rule logToFile_frame(5)[OF w4])
  have run: "timeAction cfg actionName actionFn context w = (Inl e, ?w6)"
    unfolding timeAction_def
    apply (subst io_bind_Date_now)
    apply (subst io_bind_logToFile[OF w0])
    apply (subst io_try_bind_Inl[where m = actionFn, OF failure])
    apply (subst io_bind_Date_now)
    apply (simp only: Let_def)
    apply (subst io_bind_logToFile[OF w3])
    apply (subst io_bind_logToFile[OF w4])
    apply (subst io_bind_logToFile[OF w5])
    apply (simp add: io_throw_def)
    done
  have logged: "fs_text ?w6 (logFilePath cfg) =
           fs_text w_failed (logFilePath cfg)
             @ logEntry cfg (clock ?w3 (clock_reads ?w3)) ''ERROR'' ?m1
             @ logEntry cfg (clock ?w4 (clock_reads ?w4)) ''ERROR'' (CROSS_MARK @ '' ERROR DETAILS: '' @ err_message e)
             @ logEntry cfg (clock ?w5 (clock_reads ?w5)) ''ERROR'' (CROSS_MARK @ '' STACK TRACE: '' @ err_stack e)"
    by (simp only: logToFile_run_text[OF w5] logToFile_run_text[OF w4] logToFile_run_text[OF w3]
        fs_text_Date_now append_assoc)
  show ?thesis
    unfolding run fst_conv snd_conv
    using logged by blast
qed

theorem timeAction_failure_witness:
  "logs_writable cart_config quiet_world
   \<and> fst (timeAction cart_config ''Add product to cart'' timeout_action ''Add Item Test'' quiet_world)
       = Inl (Error ''locator.click: Timeout 10000ms exceeded.''
                    ''TimeoutError: locator.click: Timeout 10000ms exceeded.'')"
proof -
  let ?started = "snd (logToFile cart_config
      (STOPWATCH @ ''  STARTING: '' @ fullContext ''Add product to cart'' ''Add Item Test'')
      ''ACTION'' (snd (Date_now quiet_world)))"
  have h: "logs_writable cart_config quiet_world"
    by (rule quiet_world_writable)
  have s: "logs_writable cart_config ?started"
    using h by (simp add: logToFile_frame(5))
  have f: "timeout_action ?started =
      (Inl (Error ''locator.click: Timeout 10000ms exceeded.''
                  ''TimeoutError: locator.click: Timeout 10000ms exceeded.''),
       ?started\<lparr>clock := (\<lambda>n. clock ?started n + 10000)\<rparr>)"
    by (simp add: timeout_action_def)
  have s': "logs_writable cart_config (?started\<lparr>clock := (\<lambda>n. clock ?started n + 10000)\<rparr>)"
    using s by simp
  show ?thesis
    using h timeAction_failure[of cart_config quiet_world timeout_action "''Add product to cart''"
        "''Add Item Test''", OF h f s']
    by simp
qed

text \<open>
  The helper of the cart, checkout and login files on an operation that succeeds after
  more than 5000 ms: it returns the result of the operation, writes the COMPLETED line
  and one WARNING line after what the operation left, and adds one to
  \<^verbatim>\<open>testStats.slowOps\<close>.
\<close>

theorem timeAction_slow:
  assumes writable: "logs_writable cfg w"
    and success:
      "actionFn (snd (logToFile cfg (STOPWATCH @ ''  STARTING: '' @ fullContext actionName context)
                        ''ACTION'' (snd (Date_now w)))) = (Inr r, w_done)"
    and writable': "logs_writable cfg w_done"
    and slow: "clock w_done (clock_reads w_done) - clock w (clock_reads w) > 5000"
  shows "fst (timeAction cfg actionName actionFn context w) = Inr r
     \<and> snd (timeAction cfg actionName actionFn context w) =
         snd (slowOps_increment
           (snd (logToFile cfg (WARNING_SIGN @ ''  SLOW OPERATION: '' @ fullContext actionName context
                    @ '' took ''
                    @ numberToString (clock w_done (clock_reads w_done) - clock w (clock_reads w))
                    @ ''ms'') ''WARNING''
             (snd (logToFile cfg (CHECK_MARK @ '' COMPLETED: '' @ fullContext actionName context
                      @ '' (''
                      @ numberToString (clock w_done (clock_reads w_done) - clock w (clock_reads w))
                      @ ''ms)'') ''SUCCESS'' (snd (Date_now w_done)))))))
     \<and> slowOps (testStats (snd (timeAction cfg actionName actionFn context w)))
         = slowOps (testStats w_done) + 1
     \<and> (\<exists>t1 t2. fs_text (snd (timeAction cfg actionName actionFn context w)) (logFilePath cfg) =
           fs_text w_done (logFilePath cfg)
             @ logEntry cfg t1 ''SUCCESS'' (CHECK_MARK @ '' COMPLETED: '' @ fullContext actionName context
                      @ '' (''
                      @ numberToString (clock w_done (clock_reads w_done) - clock w (clock_reads w))
                      @ ''ms)'')
             @ logEntry cfg t2 ''WARNING'' (WARNING_SIGN @ ''  SLOW OPERATION: ''
                    @ fullContext actionName context @ '' took ''
                    @ numberToString (clock w_done (clock_reads w_done) - clock w (clock_reads w))
                    @ ''ms''))"
proof -
  let ?d = "clock w_done (clock_reads w_done) - clock w (clock_reads w)"
  let ?m1 = "CHECK_MARK @ '' COMPLETED: '' @ fullContext actionName context
                      @ '' ('' @ numberToString ?d @ ''ms)''"
  let ?m2 = "WARNING_SIGN @ ''  SLOW OPERATION: '' @ fullContext actionName context
                    @ '' took '' @ numberToString ?d @ ''ms''"
  let ?w3 = "snd (Date_now w_done)"
  let ?w4 = "snd (logToFile cfg ?m1 ''SUCCESS'' ?w3)"
  let ?w5 = "snd (logToFile cfg ?m2 ''WARNING'' ?w4)"
  let ?w6 = "snd (slowOps_increment ?w5)"
  have w0: "logs_writable cfg (snd (Date_now w))" using writable by simp
  have w3: "logs_writable cfg ?w3" using writable' by simp
  have w4: "logs_writable cfg ?w4" by (rule logToFile_frame(5)[OF w3])
  have w5: "logs_writable cfg ?w5" by (rule logToFile_frame(5)[OF w4])
  have run: "timeAction cfg actionName actionFn context w = (Inr r, ?w6)"
    unfolding timeAction_def
    apply (subst io_bind_Date_now)
    apply (subst io_bind_logToFile[OF w0])
    apply (subst io_try_bind_Inr[of actionFn, OF success])
    apply (rule io_try_Inr)
    apply (subst io_bind_Date_now)
    apply (simp only: Let_def slow if_True)
    apply (subst io_bind_logToFile[OF w3])
    apply (subst io_bind_Inr[of "io_bind (logToFile cfg ?m2 ''WARNING'') (\<lambda>_. slowOps_increment)" ?w4 "()" ?w6])
     apply (subst io_bind_logToFile[OF w4])
     apply (simp add: slowOps_increment_def)
    apply (simp add: io_return_def)
    done
  have counted: "slowOps (testStats ?w6) = slowOps (testStats w_done) + 1"
    using writable' by (simp add: slowOps_increment_def logToFile_frame Date_now_def)
  have logged: "fs_text ?w6 (logFilePath cfg) =
           fs_text w_done (logFilePath cfg)
             @ logEntry cfg (clock ?w3 (clock_reads ?w3)) ''SUCCESS'' ?m1
             @ logEntry cfg (clock ?w4 (clock_reads ?w4)) ''WARNING'' ?m2"
  proof -
    have "fs_text ?w6 (logFilePath cfg) = fs_text ?w5 (logFilePath cfg)"
      by (simp add: slowOps_increment_def fs_text_def)
    then show ?thesis
      by (simp only: logToFile_run_text[OF w4] logToFile_run_text[OF w3] fs_text_Date_now append_assoc)
  qed
  show ?thesis
    unfolding run fst_conv snd_conv
    using counted logged by blast
qed

text \<open>The helper of the sort file on the same operation: the two lines, and nothing else.\<close>

lemma sort_timeAction_slow:
  assumes writable: "logs_writable cfg w"
    and success:
      "actionFn (snd (logToFile cfg (STOPWATCH @ ''  STARTING: '' @ fullContext actionName context)
                        ''ACTION'' (snd (Date_now w)))) = (Inr r, w_done)"
    and writable': "logs_writable cfg w_done"
    and slow: "clock w_done (clock_reads w_done) - clock w (clock_reads w) > 5000"
  shows "sort_timeAction cfg actionName actionFn context w =
     (Inr r,
      snd (logToFile cfg (WARNING_SIGN @ ''  SLOW OPERATION: '' @ fullContext actionName context
                    @ '' took ''
                    @ numberToString (clock w_done (clock_reads w_done) - clock w (clock_reads w))
                    @ ''ms'') ''WARNING''
             (snd (logToFile cfg (CHECK_MARK @ '' COMPLETED: '' @ fullContext actionName context
                      @ '' (''
                      @ numberToString (clock w_done (clock_reads w_done) - clock w (clock_reads w))
                      @ ''ms)'') ''SUCCESS'' (snd (Date_now w_done))))))"
proof -
  let ?d = "clock w_done (clock_reads w_done) - clock w (clock_reads w)"
  let ?m1 = "CHECK_MARK @ '' COMPLETED: '' @ fullContext actionName context
                      @ '' ('' @ numberToString ?d @ ''ms)''"
  let ?m2 = "WARNING_SIGN @ ''  SLOW OPERATION: '' @ fullContext actionName context
                    @ '' took '' @ numberToString ?d @ ''ms''"
  let ?w3 = "snd (Date_now w_done)"
  let ?w4 = "snd (logToFile cfg ?m1 ''SUCCESS'' ?w3)"
  have w0: "logs_writable cfg (snd (Date_now w))" using writable by simp
  have w3: "logs_writable cfg ?w3" using writable' by simp
  have w4: "logs_writable cfg ?w4" by (rule logToFile_frame(5)[OF w3])
  show ?thesis
    unfolding sort_timeAction_def
    apply (subst io_bind_Date_now)
    apply (subst io_bind_logToFile[OF w0])
    apply (subst io_try_bind_Inr[of actionFn, OF success])
    apply (rule io_try_Inr)
    apply (subst io_bind_Date_now)
    apply (simp only: Let_def slow if_True)
    apply (subst io_bind_logToFile[OF w3])
    apply (subst io_bind_logToFile[OF w4])
    apply (simp add: io_return_def)
    done
qed

text \<open>
  C4. The claim holds for the helper of the cart, checkout and login files
  (\<open>timeAction_slow\<close>) and fails for the helper of the sort file: wrapped around a wait
  that succeeds after 6750 ms, it writes the WARNING line and leaves
  \<^verbatim>\<open>testStats.slowOps\<close> at 0.
\<close>

theorem sort_timeAction_leaves_slowOps:
  "fst (sort_timeAction sort_config ''Page load state wait'' six_seconds ''BeforeAll Setup'' sort_world)
     = Inr ()
   \<and> (\<exists>t. suffix (logEntry sort_config t ''WARNING''
                    (WARNING_SIGN @ ''  SLOW OPERATION: BeforeAll Setup - Page load state wait took 6750ms''))
          (fs_text (snd (sort_timeAction sort_config ''Page load state wait'' six_seconds
                           ''BeforeAll Setup'' sort_world)) (logFilePath sort_config)))
   \<and> slowOps (testStats (snd (sort_timeAction sort_config ''Page load state wait'' six_seconds
                                ''BeforeAll Setup'' sort_world))) = 0"
proof -
  define m0 where "m0 = STOPWATCH @ ''  STARTING: '' @ fullContext ''Page load state wait'' ''BeforeAll Setup''"
  define w0 :: "testStats world" where "w0 = snd (Date_now sort_world)"
  define started where "started = snd (logToFile sort_config m0 ''ACTION'' w0)"
  define finished where "finished = started\<lparr>clock := (\<lambda>n. clock started n + 6000)\<rparr>"
  have h: "logs_writable sort_config sort_world"
    by (rule sort_world_writable)
  have h0: "logs_writable sort_config w0"
    using h by (simp add: w0_def)
  have s: "logs_writable sort_config started"
    unfolding started_def by (rule logToFile_frame(5)[OF h0])
  have ok: "six_seconds (snd (logToFile sort_config
      (STOPWATCH @ ''  STARTING: '' @ fullContext ''Page load state wait'' ''BeforeAll Setup'')
      ''ACTION'' (snd (Date_now sort_world)))) = (Inr (), finished)"
    by (simp only: six_seconds_def finished_def started_def m0_def w0_def)
  have s': "logs_writable sort_config finished"
    using s by (simp add: finished_def)
  have quiet: "\<not> to_summary m0 ''ACTION''" "\<not> to_master m0 ''ACTION''"
    unfolding m0_def by code_simp+
  have reads: "clock_reads started = 3"
    unfolding started_def
    by (simp only: logToFile_reads[OF h0] quiet if_False) (simp add: w0_def Date_now_def sort_world_def)
  have clk: "clock started = clock sort_world"
    unfolding started_def
    by (simp only: logToFile_frame(4)[OF h0]) (simp add: w0_def Date_now_def)
  have d: "clock finished (clock_reads finished) - clock sort_world (clock_reads sort_world) = 6750"
    by (simp add: finished_def reads clk) (simp add: sort_world_def)
  then have slow: "clock finished (clock_reads finished) - clock sort_world (clock_reads sort_world) > 5000"
    by simp
  have ctx: "fullContext ''Page load state wait'' ''BeforeAll Setup''
               = ''BeforeAll Setup - Page load state wait''"
    by (simp add: fullContext_def)
  have n: "numberToString 6750 = ''6750''"
    by code_simp
  note run = sort_timeAction_slow[of sort_config sort_world six_seconds "''Page load state wait''"
      "''BeforeAll Setup''", OF h ok s' slow]
  define m1 where "m1 = CHECK_MARK @ '' COMPLETED: '' @ fullContext ''Page load state wait'' ''BeforeAll Setup''
                      @ '' ('' @ numberToString (clock finished (clock_reads finished) - clock sort_world (clock_reads sort_world)) @ ''ms)''"
  define w3 where "w3 = snd (Date_now finished)"
  define w4 where "w4 = snd (logToFile sort_config m1 ''SUCCESS'' w3)"
  have w3: "logs_writable sort_config w3" using s' by (simp add: w3_def)
  have w4: "logs_writable sort_config w4" unfolding w4_def by (rule logToFile_frame(5)[OF w3])
  have stats0: "testStats finished = testStats sort_world"
    unfolding finished_def started_def
    by (simp add: logToFile_frame(3)[OF h0]) (simp add: w0_def Date_now_def)
  have stats: "slowOps (testStats (snd (sort_timeAction sort_config ''Page load state wait'' six_seconds
                                ''BeforeAll Setup'' sort_world))) = slowOps (testStats sort_world)"
    unfolding run snd_conv
    apply (fold m1_def w3_def)
    apply (fold w4_def)
    apply (simp only: logToFile_frame(3)[OF w4])
    apply (simp only: w4_def logToFile_frame(3)[OF w3])
    apply (simp add: w3_def Date_now_def stats0)
    done
  have logged: "\<exists>t. suffix (logEntry sort_config t ''WARNING''
                    (WARNING_SIGN @ ''  SLOW OPERATION: BeforeAll Setup - Page load state wait took 6750ms''))
          (fs_text (snd (sort_timeAction sort_config ''Page load state wait'' six_seconds
                           ''BeforeAll Setup'' sort_world)) (logFilePath sort_config))"
    unfolding run snd_conv
    apply (fold m1_def w3_def)
    apply (fold w4_def)
    apply (simp only: logToFile_run_text[OF w4] d ctx n)
    apply (rule exI[of _ "clock w4 (clock_reads w4)"])
    apply (rule suffix_appendI)
    apply simp
    done
  show ?thesis
    using run stats logged by (simp add: sort_world_def)
qed


section \<open>cleanupOldLogs\<close>

subsection \<open>What the helpers leave alone\<close>

lemma log_writes_only_refl: "log_writes_only cfg w w"
  by (simp add: log_writes_only_def)

lemma log_writes_only_trans:
  assumes "log_writes_only cfg w w'" and "log_writes_only cfg w' w''"
  shows "log_writes_only cfg w w''"
proof -
  from assms(1) obtain c1 where c1: "map fst (fs w') = map fst (fs w) @ c1"
    "set c1 \<subseteq> {logFilePath cfg, summaryLogPath cfg, masterSummaryPath cfg} - fst ` set (fs w)"
    by (auto simp: log_writes_only_def)
  from assms(2) obtain c2 where c2: "map fst (fs w'') = map fst (fs w') @ c2"
    "set c2 \<subseteq> {logFilePath cfg, summaryLogPath cfg, masterSummaryPath cfg} - fst ` set (fs w')"
    by (auto simp: log_writes_only_def)
  have "fst ` set (fs w) \<subseteq> fst ` set (fs w')"
    using c1(1) by (metis Un_iff set_append set_map subsetI)
  then have "map fst (fs w'') = map fst (fs w) @ (c1 @ c2)
     \<and> set (c1 @ c2) \<subseteq> {logFilePath cfg, summaryLogPath cfg, masterSummaryPath cfg} - fst ` set (fs w)"
    using c1 c2 by auto
  then show ?thesis
    using assms unfolding log_writes_only_def by (intro conjI exI[of _ "c1 @ c2"]) auto
qed

lemma log_writes_only_update [simp]:
  "log_writes_only cfg w (w'\<lparr>clock_reads := n\<rparr>) = log_writes_only cfg w w'"
  "log_writes_only cfg w (w'\<lparr>testStats := s\<rparr>) = log_writes_only cfg w w'"
  by (simp_all add: log_writes_only_def)

lemma appendFileSync_log_writes_only:
  assumes "p = logFilePath cfg \<or> p = summaryLogPath cfg \<or> p = masterSummaryPath cfg"
  shows "log_writes_only cfg w (snd (appendFileSync p s w))"
proof (cases "fs_faults w (Append p)")
  case (Some e)
  then show ?thesis by (simp add: appendFileSync_def log_writes_only_refl)
next
  case None
  have "\<exists>created. map fst (write_at p s t (fs w)) = map fst (fs w) @ created \<and>
         set created \<subseteq> {logFilePath cfg, summaryLogPath cfg, masterSummaryPath cfg} - fst ` set (fs w)" for t
    using assms by (cases "p \<in> fst ` set (fs w)") (auto simp: paths_write_at)
  then show ?thesis
    using None assms by (auto simp: appendFileSync_def log_writes_only_def map_of_write_at)
qed

lemma io_bind_log_writes_only:
  assumes "log_writes_only cfg w (snd (m w))"
    and "\<And>x w'. log_writes_only cfg w' (snd (f x w'))"
  shows "log_writes_only cfg w (snd (io_bind m f w))"
proof (cases "m w")
  case (Pair r w')
  show ?thesis
  proof (cases r)
    case (Inl e)
    with Pair assms(1) show ?thesis by (simp add: io_bind_def)
  next
    case (Inr x)
    with Pair assms(1) assms(2)[of w' x] show ?thesis
      by (auto simp: io_bind_def intro: log_writes_only_trans)
  qed
qed

lemma io_try_log_writes_only:
  assumes "log_writes_only cfg w (snd (m w))"
    and "\<And>e w'. log_writes_only cfg w' (snd (handler e w'))"
  shows "log_writes_only cfg w (snd (io_try m handler w))"
proof (cases "m w")
  case (Pair r w')
  show ?thesis
  proof (cases r)
    case (Inl e)
    with Pair assms(1) assms(2)[of w' e] show ?thesis
      by (auto simp: io_try_def intro: log_writes_only_trans)
  next
    case (Inr x)
    with Pair assms(1) show ?thesis by (simp add: io_try_def)
  qed
qed

lemma logToFile_log_writes_only: "log_writes_only cfg w (snd (logToFile cfg message level w))"
  unfolding logToFile_def
  apply (rule io_bind_log_writes_only)
   apply (simp add: Date_now_def log_writes_only_refl)
  apply (rule io_bind_log_writes_only)
   apply (simp add: appendFileSync_log_writes_only)
  apply (rule io_bind_log_writes_only)
   apply (simp add: appendFileSync_log_writes_only io_return_def log_writes_only_refl)
  apply (simp add: appendFileSync_log_writes_only io_return_def log_writes_only_refl)
  done

lemma stat_each_state: "snd (stat_each dir names w) = w"
proof (induction names)
  case Nil
  then show ?case by (simp add: io_return_def)
next
  case (Cons n names)
  then show ?case
    by (cases "stat_each dir names w")
       (auto simp: io_bind_def io_return_def statSync_def split: option.splits sum.splits)
qed

lemma list_old_logs_state: "snd (list_old_logs cfg w) = w"
proof (cases "fs_faults w (Readdir (testFileLogsDir cfg))")
  case (Some e)
  then show ?thesis
    by (simp add: list_old_logs_def io_bind_def readdirSync_def)
next
  case None
  obtain r w' where r: "stat_each (testFileLogsDir cfg)
      (filter (qualifies cfg) (dir_entries (testFileLogsDir cfg) (fs w))) w = (r, w')"
    by force
  with stat_each_state[of "testFileLogsDir cfg"
      "filter (qualifies cfg) (dir_entries (testFileLogsDir cfg) (fs w))" w]
  have "w' = w" by simp
  with r None show ?thesis
    by (cases r) (simp_all add: list_old_logs_def io_bind_def readdirSync_def io_return_def)
qed

lemma stat_each_ok:
  assumes "stat_each dir names w = (Inr stats, w')"
  shows "map name stats = names
     \<and> (\<forall>f\<in>set stats. path f = path_join dir (name f)
           \<and> (\<exists>g. map_of (fs w) (path f) = Some g \<and> mtime g = time f))"
  using assms
proof (induction names arbitrary: stats w')
  case Nil
  then show ?case by (simp add: io_return_def)
next
  case (Cons n names)
  from Cons.prems obtain g where g: "map_of (fs w) (path_join dir n) = Some g"
    by (auto simp: io_bind_def statSync_def split: option.splits)
  with Cons.prems obtain others where o: "stat_each dir names w = (Inr others, w)"
    and s: "stats = \<lparr>name = n, time = mtime g, path = path_join dir n\<rparr> # others"
    using stat_each_state[of dir names w]
    by (cases "stat_each dir names w")
       (auto simp: io_bind_def io_return_def statSync_def split: option.splits sum.splits)
  from Cons.IH[OF o] g s show ?case by auto
qed

lemma list_old_logs_ok:
  assumes "list_old_logs cfg w = (Inr files, w')"
  shows "\<exists>stats. files = sort_newest_first stats
     \<and> map name stats = rotation_candidates cfg w
     \<and> (\<forall>f\<in>set stats. path f = path_join (testFileLogsDir cfg) (name f)
           \<and> (\<exists>g. map_of (fs w) (path f) = Some g \<and> mtime g = time f))"
proof (cases "fs_faults w (Readdir (testFileLogsDir cfg))")
  case (Some e)
  with assms show ?thesis
    by (simp add: list_old_logs_def io_bind_def readdirSync_def)
next
  case None
  obtain r w1 where r: "stat_each (testFileLogsDir cfg)
      (filter (qualifies cfg) (dir_entries (testFileLogsDir cfg) (fs w))) w = (r, w1)"
    by force
  with assms None obtain stats where s: "r = Inr stats" "files = sort_newest_first stats"
    by (cases r) (auto simp: list_old_logs_def io_bind_def readdirSync_def io_return_def)
  from stat_each_ok[OF r[unfolded s(1)]] s(2) show ?thesis
    by (auto simp: rotation_candidates_def)
qed

lemma list_old_logs_length:
  assumes "list_old_logs cfg w = (Inr files, w')"
  shows "length files = length (rotation_candidates cfg w)"
proof -
  from list_old_logs_ok[OF assms] obtain stats where
    "files = sort_newest_first stats" "map name stats = rotation_candidates cfg w"
    by blast
  then show ?thesis
    by (metis length_map length_sort sort_newest_first_def)
qed

lemma cleanup_attempt_few:
  assumes "length (rotation_candidates cfg w) \<le> 10"
  shows "log_writes_only cfg w (snd (cleanup_attempt cfg w))"
proof -
  obtain r where r: "list_old_logs cfg w = (r, w)"
    using list_old_logs_state[of cfg w] by (metis prod.collapse)
  show ?thesis
  proof (cases r)
    case (Inl e)
    with r show ?thesis
      by (simp add: cleanup_attempt_def io_bind_Inl[where m = "list_old_logs cfg", OF r[unfolded Inl]] log_writes_only_refl)
  next
    case (Inr files)
    with r assms have few: "\<not> length files > 10"
      using list_old_logs_length[of cfg w files w] by simp
    have "log_writes_only cfg w (snd (io_bind (logToFile cfg m ''INFO'') (\<lambda>_. io_return ()) w))" for m
      by (rule io_bind_log_writes_only) (simp_all add: logToFile_log_writes_only io_return_def log_writes_only_refl)
    then show ?thesis
      unfolding cleanup_attempt_def
      by (subst io_bind_Inr[where m = "list_old_logs cfg", OF r[unfolded Inr]]) (simp only: few if_False)
  qed
qed

lemma warnings_increment_log_writes_only:
  "log_writes_only cfg w (snd (warnings_increment w))"
  by (simp add: warnings_increment_def log_writes_only_refl)

lemma cleanupOldLogs_few:
  assumes "length (rotation_candidates cfg w) \<le> 10"
  shows "log_writes_only cfg w (snd (cleanupOldLogs cfg w))"
  unfolding cleanupOldLogs_def
  apply (rule io_try_log_writes_only)
   apply (rule cleanup_attempt_few[OF assms])
  apply (rule io_bind_log_writes_only)
   apply (rule logToFile_log_writes_only)
  apply (rule warnings_increment_log_writes_only)
  done

text \<open>
  C5. When the feature directory holds at most 10 qualifying files, \<^verbatim>\<open>cleanupOldLogs\<close>
  deletes nothing: the files of the file system are the same after the call, in the same
  order, and every file other than the three log files of the run is as it was. (The
  three log files are there: the module has written to them when it was loaded. Whether
  the listing, the stats or the appends succeed does not matter.)
\<close>

theorem cleanupOldLogs_deletes_nothing:
  assumes "logs_created cfg w"
    and "length (rotation_candidates cfg w) \<le> 10"
  shows "map fst (fs (snd (cleanupOldLogs cfg w))) = map fst (fs w)
     \<and> (\<forall>p. p \<noteq> logFilePath cfg \<and> p \<noteq> summaryLogPath cfg \<and> p \<noteq> masterSummaryPath cfg
           \<longrightarrow> map_of (fs (snd (cleanupOldLogs cfg w))) p = map_of (fs w) p)"
proof -
  from cleanupOldLogs_few[OF assms(2)]
  obtain created where c: "map fst (fs (snd (cleanupOldLogs cfg w))) = map fst (fs w) @ created"
    "set created \<subseteq> {logFilePath cfg, summaryLogPath cfg, masterSummaryPath cfg} - fst ` set (fs w)"
    and f: "\<forall>p. p \<noteq> logFilePath cfg \<and> p \<noteq> summaryLogPath cfg \<and> p \<noteq> masterSummaryPath cfg
           \<longrightarrow> map_of (fs (snd (cleanupOldLogs cfg w))) p = map_of (fs w) p"
    unfolding log_writes_only_def by blast
  from c(2) assms(1) have "created = []"
    by (auto simp: logs_created_def)
  with c(1) f show ?thesis
    by simp
qed

theorem cleanupOldLogs_deletes_nothing_witness:
  "logs_created cart_config quiet_world
   \<and> length (rotation_candidates cart_config quiet_world) \<le> 10
   \<and> map fst (fs (snd (cleanupOldLogs cart_config quiet_world)))
       = [logFilePath cart_config, summaryLogPath cart_config, masterSummaryPath cart_config]"
proof -
  have c: "logs_created cart_config quiet_world"
    by code_simp
  have f: "length (rotation_candidates cart_config quiet_world) \<le> 10"
    by code_simp
  have p: "map fst (fs quiet_world)
       = [logFilePath cart_config, summaryLogPath cart_config, masterSummaryPath cart_config]"
    by (simp add: quiet_world_def)
  show ?thesis
    using cleanupOldLogs_deletes_nothing[OF c f] c f p by simp
qed




subsection \<open>The rotation\<close>




lemma map_fst_filter: "map fst (filter (\<lambda>entry. P (fst entry)) es) = filter P (map fst es)"
  by (induction es) auto



















section \<open>getCartCount\<close>




end
